theory Spec2Isabelle
  imports Complex_Main "HOL-Library.Word" "HOL-Library.Code_Target_Numeral"
begin

section \<open>EventHubConnectionConfig: addresses and audiences of an event hub\<close>

text \<open>
  The module \<open>EventHubConnectionConfig\<close> takes the connection config that
  \<open>ConnectionConfig.create\<close> returns and attaches six closures to it. Each closure reads the
  fields \<open>endpoint\<close> and \<open>entityPath\<close> of the config and builds a string with a template
  literal; four of them first test the run-time type of \<open>partitionId\<close> and throw a
  \<open>TypeError\<close>. The embedding below keeps the names of the source. A closure becomes a function
  of the config and of its arguments, and a \<open>throw\<close> becomes the left injection of a sum.
\<close>

subsection \<open>Numbers\<close>

text \<open>
  A JavaScript number is an IEEE 754 double: a \<open>64 word\<close> holding the sign bit, eleven
  exponent bits and fifty-two fraction bits. Exponent bits all ones with a non-zero fraction
  are the value \<open>NaN\<close>, which JavaScript does not tell apart by its fraction; with a zero
  fraction they are the two infinities. Every other word is the finite number
  \<open>significand * 2 ^ exponent2\<close>, negated when the sign bit is set.
\<close>

type_synonym double = "64 word"

definition sign_bit :: "double \<Rightarrow> bool" where
  "sign_bit x = (unat x div 2 ^ 63 = 1)"

definition biased_exponent :: "double \<Rightarrow> nat" where
  "biased_exponent x = (unat x div 2 ^ 52) mod 2 ^ 11"

definition fraction_bits :: "double \<Rightarrow> nat" where
  "fraction_bits x = unat x mod 2 ^ 52"

definition is_NaN :: "double \<Rightarrow> bool" where
  "is_NaN x = (biased_exponent x = 2047 \<and> fraction_bits x \<noteq> 0)"

definition is_infinite :: "double \<Rightarrow> bool" where
  "is_infinite x = (biased_exponent x = 2047 \<and> fraction_bits x = 0)"

definition is_zero :: "double \<Rightarrow> bool" where
  "is_zero x = (biased_exponent x = 0 \<and> fraction_bits x = 0)"

definition significand :: "double \<Rightarrow> nat" where
  "significand x =
     (if biased_exponent x = 0 then fraction_bits x else 2 ^ 52 + fraction_bits x)"

definition exponent2 :: "double \<Rightarrow> int" where
  "exponent2 x = (if biased_exponent x = 0 then - 1074 else int (biased_exponent x) - 1075)"

text \<open>The rational value of a finite double; \<open>None\<close> for \<open>NaN\<close> and the infinities.\<close>

definition Number_value :: "double \<Rightarrow> rat option" where
  "Number_value x =
     (if biased_exponent x = 2047 then None
      else Some ((if sign_bit x then - 1 else 1) *
                 (if 0 \<le> exponent2 x then of_nat (significand x * 2 ^ nat (exponent2 x))
                  else of_nat (significand x) / of_nat (2 ^ nat (- exponent2 x)))))"

subsection \<open>The conversion of a number to a string\<close>

text \<open>
  A template literal converts a number with \<open>Number::toString\<close> in radix 10. For a finite
  non-zero \<open>x\<close> the standard takes integers \<open>n\<close>, \<open>k\<close> and \<open>s\<close> with
  \<open>10 ^ (k - 1) \<le> s < 10 ^ k\<close> such that \<open>s * 10 ^ (n - k)\<close> rounds to \<open>x\<close> and \<open>k\<close> is as
  small as possible; among several \<open>s\<close> the engines take the one whose value is closest to \<open>x\<close>,
  and the even one of two equally close.

  A real \<open>v\<close> rounds to the double with significand \<open>m\<close> and exponent \<open>e\<close> when it lies between
  the midpoints to the two neighbouring doubles, the midpoints included when \<open>m\<close> is even. In
  units of \<open>2 ^ (e - 2)\<close> the double is \<open>4 * m\<close>, the upper midpoint \<open>4 * m + 2\<close> and the lower
  midpoint \<open>4 * m - 2\<close>, or \<open>4 * m - 1\<close> where the double below is only half as far away: that
  is at the least significand of every exponent but the lowest.
\<close>

definition narrow_below :: "double \<Rightarrow> bool" where
  "narrow_below x = (fraction_bits x = 0 \<and> 1 < biased_exponent x)"

text \<open>
  The comparison of \<open>c * 2 ^ (e - 2)\<close> with \<open>s * 10 ^ q\<close> multiplies both sides by the powers
  of two and ten that have a negative exponent: it is the comparison of
  \<open>c * bin_scale e q\<close> with \<open>s * dec_scale e q\<close>, two natural numbers.
\<close>

definition bin_scale :: "int \<Rightarrow> int \<Rightarrow> nat" where
  "bin_scale e q =
     (if 2 \<le> e then 2 ^ nat (e - 2) else 1) * (if q < 0 then 10 ^ nat (- q) else 1)"

definition dec_scale :: "int \<Rightarrow> int \<Rightarrow> nat" where
  "dec_scale e q =
     (if e < 2 then 2 ^ nat (2 - e) else 1) * (if 0 \<le> q then 10 ^ nat q else 1)"

definition lower4 :: "nat \<Rightarrow> bool \<Rightarrow> nat" where
  "lower4 m nb = (if nb then 4 * m - 1 else 4 * m - 2)"

definition upper4 :: "nat \<Rightarrow> nat" where
  "upper4 m = 4 * m + 2"

definition rounds_to :: "nat \<Rightarrow> int \<Rightarrow> bool \<Rightarrow> int \<Rightarrow> nat \<Rightarrow> bool" where
  "rounds_to m e nb q s =
     (if even m
      then lower4 m nb * bin_scale e q \<le> s * dec_scale e q \<and>
           s * dec_scale e q \<le> upper4 m * bin_scale e q
      else lower4 m nb * bin_scale e q < s * dec_scale e q \<and>
           s * dec_scale e q < upper4 m * bin_scale e q)"

text \<open>
  \<open>floor_digits m e q\<close> is the integer part of \<open>x / 10 ^ q\<close>. If any multiple of \<open>10 ^ q\<close> rounds
  to \<open>x\<close>, then this one or the next does, and the closer of the two is the closest of all.
\<close>

definition floor_digits :: "nat \<Rightarrow> int \<Rightarrow> int \<Rightarrow> nat" where
  "floor_digits m e q = (4 * m * bin_scale e q) div dec_scale e q"

definition has_digits :: "nat \<Rightarrow> int \<Rightarrow> bool \<Rightarrow> int \<Rightarrow> nat \<Rightarrow> bool" where
  "has_digits m e nb n k =
     (rounds_to m e nb (n - int k) (floor_digits m e (n - int k)) \<or>
      rounds_to m e nb (n - int k) (floor_digits m e (n - int k) + 1))"

definition closest :: "nat \<Rightarrow> int \<Rightarrow> bool \<Rightarrow> int \<Rightarrow> nat \<Rightarrow> nat" where
  "closest m e nb q s =
     (if \<not> rounds_to m e nb q (s + 1) then s
      else if \<not> rounds_to m e nb q s then s + 1
      else if 4 * m * bin_scale e q - s * dec_scale e q <
              (s + 1) * dec_scale e q - 4 * m * bin_scale e q then s
      else if (s + 1) * dec_scale e q - 4 * m * bin_scale e q <
              4 * m * bin_scale e q - s * dec_scale e q then s + 1
      else if even s then s else s + 1)"

text \<open>The decimal digits of a natural number.\<close>

definition digit_char :: "nat \<Rightarrow> char" where
  "digit_char d = ''0123456789'' ! (d mod 10)"

fun nat_toString :: "nat \<Rightarrow> string" where
  "nat_toString n =
     (if n < 10 then [digit_char n] else nat_toString (n div 10) @ [digit_char (n mod 10)])"

declare nat_toString.simps [simp del]

text \<open>
  \<open>decimal_exponent m e\<close> is the \<open>n\<close> with \<open>10 ^ (n - 1) \<le> x < 10 ^ n\<close>: the number of digits of
  the integer part of \<open>x\<close> when \<open>1 \<le> x\<close>, and otherwise one minus the number of digits of
  the greatest integer below \<open>1 / x\<close>.
\<close>

definition decimal_exponent :: "nat \<Rightarrow> int \<Rightarrow> int" where
  "decimal_exponent m e =
     (if 0 \<le> e then int (length (nat_toString (m * 2 ^ nat e)))
      else if 2 ^ nat (- e) \<le> m then int (length (nat_toString (m div 2 ^ nat (- e))))
      else 1 - int (length (nat_toString ((2 ^ nat (- e) - 1) div m))))"

text \<open>
  The least \<open>k\<close> for which \<open>k\<close> digits round to \<open>x\<close>; seventeen digits identify every double.
  With that \<open>k\<close> the digits are the closest ones. When they are \<open>10 ^ k\<close>, which happens for
  \<open>k = 1\<close> only, the value is the next power of ten: one digit \<open>1\<close> and \<open>n + 1\<close>.
\<close>

definition digit_count :: "nat \<Rightarrow> int \<Rightarrow> bool \<Rightarrow> int \<Rightarrow> nat" where
  "digit_count m e nb n =
     (case find (has_digits m e nb n) [1, 2, 3, 4, 5, 6, 7, 8, 9, 10, 11, 12, 13, 14, 15, 16] of
        Some k \<Rightarrow> k
      | None \<Rightarrow> 17)"

definition carry :: "nat \<Rightarrow> nat \<Rightarrow> int \<Rightarrow> nat \<times> int" where
  "carry s k n = (if s = 10 ^ k then (10 ^ (k - 1), n + 1) else (s, n))"

definition digits_at :: "nat \<Rightarrow> int \<Rightarrow> bool \<Rightarrow> int \<Rightarrow> nat \<Rightarrow> nat \<times> int" where
  "digits_at m e nb n k =
     carry (closest m e nb (n - int k) (floor_digits m e (n - int k))) k n"

definition shortest_digits :: "nat \<Rightarrow> int \<Rightarrow> bool \<Rightarrow> nat \<times> int" where
  "shortest_digits m e nb =
     digits_at m e nb (decimal_exponent m e) (digit_count m e nb (decimal_exponent m e))"

text \<open>
  The digits \<open>ds\<close> of \<open>s\<close> are printed plainly when \<open>- 5 \<le> n \<le> 21\<close>: followed by zeros, or with
  a point after the first \<open>n\<close> digits, or after \<open>0.\<close> and \<open>- n\<close> zeros. Otherwise they are printed
  with a point after the first digit and the exponent \<open>n - 1\<close>.
\<close>

definition format_digits :: "string \<Rightarrow> int \<Rightarrow> string" where
  "format_digits ds n =
     (if - 5 \<le> n \<and> n \<le> 21 then
        if int (length ds) \<le> n then ds @ replicate (nat (n - int (length ds))) CHR ''0''
        else if 0 < n then take (nat n) ds @ ''.'' @ drop (nat n) ds
        else ''0.'' @ replicate (nat (- n)) CHR ''0'' @ ds
      else
        (if length ds = 1 then ds else take 1 ds @ ''.'' @ drop 1 ds) @ ''e'' @
        (if 0 < n - 1 then ''+'' else ''-'') @ nat_toString (nat \<bar>n - 1\<bar>))"

fun format_shortest :: "nat \<times> int \<Rightarrow> string" where
  "format_shortest (s, n) = format_digits (nat_toString s) n"

definition Number_toString :: "double \<Rightarrow> string" where
  "Number_toString x =
     (if is_NaN x then ''NaN''
      else if is_zero x then ''0''
      else (if sign_bit x then ''-'' else []) @
           (if is_infinite x then ''Infinity''
            else format_shortest
                   (shortest_digits (significand x) (exponent2 x) (narrow_below x))))"

subsection \<open>JavaScript values\<close>

text \<open>
  The closures test \<open>partitionId\<close> at run time, so the argument ranges over JavaScript values
  and not only over the declared type \<open>string | number\<close>.
\<close>

datatype jsval =
    JSUndefined
  | JSNull
  | JSBoolean bool
  | JSNumber double
  | JSString string
  | JSObject "(string \<times> jsval) list"
  | JSArray "jsval list"

text \<open>The operator \<open>typeof\<close>; it answers \<open>"object"\<close> for \<open>null\<close> and for arrays.\<close>

fun typeof :: "jsval \<Rightarrow> string" where
  "typeof JSUndefined = ''undefined''"
| "typeof JSNull = ''object''"
| "typeof (JSBoolean b) = ''boolean''"
| "typeof (JSNumber n) = ''number''"
| "typeof (JSString s) = ''string''"
| "typeof (JSObject ps) = ''object''"
| "typeof (JSArray xs) = ''object''"

text \<open>
  The loose comparison \<open>v == undefined\<close>: it holds of \<open>undefined\<close> and of \<open>null\<close> and of
  no other value of \<open>jsval\<close>.
\<close>

fun loose_eq_undefined :: "jsval \<Rightarrow> bool" where
  "loose_eq_undefined JSUndefined = True"
| "loose_eq_undefined JSNull = True"
| "loose_eq_undefined v = False"

text \<open>
  The conversion \<open>ToString\<close> of a template literal. The closures reach it for strings and
  numbers only; the other cases are the built-in conversions of the primitive values, of a
  plain object and of an array (whose \<open>undefined\<close> and \<open>null\<close> elements print as nothing).
\<close>

fun join_comma :: "string list \<Rightarrow> string" where
  "join_comma [] = []"
| "join_comma [s] = s"
| "join_comma (s # t # ss) = s @ '','' @ join_comma (t # ss)"

fun ToString :: "jsval \<Rightarrow> string" where
  "ToString JSUndefined = ''undefined''"
| "ToString JSNull = ''null''"
| "ToString (JSBoolean b) = (if b then ''true'' else ''false'')"
| "ToString (JSNumber n) = Number_toString n"
| "ToString (JSString s) = s"
| "ToString (JSObject ps) = ''[object Object]''"
| "ToString (JSArray xs) =
     join_comma (map (\<lambda>x. if loose_eq_undefined x then [] else ToString x) xs)"

subsection \<open>The config and the error\<close>

text \<open>
  \<open>ConnectionConfig\<close> is declared in another module. The closures read two of its fields;
  the others are the extension part of the record scheme.
\<close>

record ConnectionConfig =
  endpoint :: string
  entityPath :: string

datatype error = TypeError string

text \<open>
  The parameter \<open>consumergroup\<close> is declared \<open>string | undefined\<close> and no closure tests its
  type: it is a \<open>string option\<close>, \<open>None\<close> when the argument is omitted. The statement
  \<open>if (!consumergroup) consumergroup = "$default"\<close> replaces a falsy value, that is
  \<open>undefined\<close> or the empty string.
\<close>

fun default_consumergroup :: "string option \<Rightarrow> string" where
  "default_consumergroup None = ''$default''"
| "default_consumergroup (Some cg) = (if cg = [] then ''$default'' else cg)"

subsection \<open>The six closures of \<open>create\<close>\<close>

definition getEventHubManagementAudience :: "'a ConnectionConfig_scheme \<Rightarrow> error + string" where
  "getEventHubManagementAudience config =
     Inr (endpoint config @ entityPath config @ ''/$management'')"

definition getEventHubManagementAddress :: "'a ConnectionConfig_scheme \<Rightarrow> error + string" where
  "getEventHubManagementAddress config = Inr (entityPath config @ ''/$management'')"

definition getEventHubSenderAudience ::
  "'a ConnectionConfig_scheme \<Rightarrow> jsval \<Rightarrow> error + string" where
  "getEventHubSenderAudience config partitionId =
     (if \<not> loose_eq_undefined partitionId then
        if typeof partitionId \<noteq> ''string'' \<and> typeof partitionId \<noteq> ''number'' then
          Inl (TypeError '''partitionId' must be of type 'string' or 'number'.'')
        else
          Inr (endpoint config @ entityPath config @ ''/Partitions/'' @ ToString partitionId)
      else
        Inr (endpoint config @ entityPath config))"

definition getEventHubSenderAddress ::
  "'a ConnectionConfig_scheme \<Rightarrow> jsval \<Rightarrow> error + string" where
  "getEventHubSenderAddress config partitionId =
     (if \<not> loose_eq_undefined partitionId then
        if typeof partitionId \<noteq> ''string'' \<and> typeof partitionId \<noteq> ''number'' then
          Inl (TypeError '''partitionId' must be of type 'string' or 'number'.'')
        else
          Inr (entityPath config @ ''/Partitions/'' @ ToString partitionId)
      else
        Inr (entityPath config))"

definition getEventHubReceiverAudience ::
  "'a ConnectionConfig_scheme \<Rightarrow> jsval \<Rightarrow> string option \<Rightarrow> error + string" where
  "getEventHubReceiverAudience config partitionId consumergroup =
     (if loose_eq_undefined partitionId \<or>
         (typeof partitionId \<noteq> ''string'' \<and> typeof partitionId \<noteq> ''number'') then
        Inl (TypeError ('''partitionId' is a required parameter and must be of '' @
                        ''type 'string' or 'number'' @ [CHR 0x27]))
      else
        Inr (endpoint config @ entityPath config @ ''/ConsumerGroups/'' @
             default_consumergroup consumergroup @ ''/'' @
             ''Partitions/'' @ ToString partitionId))"

definition getEventHubReceiverAddress ::
  "'a ConnectionConfig_scheme \<Rightarrow> jsval \<Rightarrow> string option \<Rightarrow> error + string" where
  "getEventHubReceiverAddress config partitionId consumergroup =
     (if loose_eq_undefined partitionId \<or>
         (typeof partitionId \<noteq> ''string'' \<and> typeof partitionId \<noteq> ''number'') then
        Inl (TypeError ('''partitionId' is a required parameter and must be of '' @
                        ''type 'string' or 'number'' @ [CHR 0x27]))
      else
        Inr (entityPath config @ ''/ConsumerGroups/'' @
             default_consumergroup consumergroup @ ''/Partitions/'' @ ToString partitionId))"

section \<open>Auxiliary facts\<close>

text \<open>
  A value that passes the type test of the closures is neither \<open>undefined\<close> nor \<open>null\<close>.
\<close>

lemma typeof_accepted_defined:
  "typeof p = ''string'' \<or> typeof p = ''number'' \<Longrightarrow> \<not> loose_eq_undefined p"
  by (cases p) simp_all

text \<open>
  The conversion evaluated at some doubles, each given by its bits and by its value: the two
  zeros, \<open>NaN\<close>, the infinities, and numbers that print as an integer, as an integer padded
  with zeros, with a point, with leading zeros, and with a positive and a negative exponent.
\<close>

lemmas double_defs = Number_toString_def is_NaN_def is_zero_def is_infinite_def sign_bit_def
  biased_exponent_def fraction_bits_def significand_def exponent2_def narrow_below_def
  lower4_def upper4_def bin_scale_def dec_scale_def decimal_exponent_def rounds_to_def
  closest_def floor_digits_def has_digits_def shortest_digits_def digits_at_def carry_def
  digit_count_def format_digits_def digit_char_def nat_toString.simps

lemma replicate_numeral: "replicate (numeral k) c = c # replicate (pred_numeral k) c"
  by (simp add: numeral_eq_Suc)

lemma Number_value_examples:
  "Number_value 0 = Some 0"
  "Number_value 0x8000000000000000 = Some 0"
  "Number_value 0x7FF8000000000000 = None"
  "Number_value 0x7FF0000000000000 = None"
  "Number_value 0x4000000000000000 = Some (2)"
  "Number_value 0x4028000000000000 = Some (12)"
  "Number_value 0x3FF8000000000000 = Some (3 / 2)"
  "Number_value 0xBFF8000000000000 = Some (- (3 / 2))"
  "Number_value 0x3FE0000000000000 = Some (1 / 2)"
  "Number_value 0x4440000000000000 = Some (2 ^ 69)"
  "Number_value 0x444B1AE4D6E2EF50 = Some (10 ^ 21)"
  "Number_value 0x44F0000000000000 = Some (2 ^ 80)"
  "Number_value 0x3F50000000000000 = Some (1 / 2 ^ 10)"
  "Number_value 0x3EB0000000000000 = Some (1 / 2 ^ 20)"
  by (simp_all add: Number_value_def sign_bit_def biased_exponent_def fraction_bits_def
      significand_def exponent2_def)

lemma Number_toString_zero: "Number_toString 0 = ''0''"
  by (simp add: double_defs)

lemma Number_toString_minus_zero: "Number_toString 0x8000000000000000 = ''0''"
  by (simp add: double_defs)

lemma Number_toString_NaN: "Number_toString 0x7FF8000000000000 = ''NaN''"
  by (simp add: double_defs)

lemma Number_toString_Infinity: "Number_toString 0x7FF0000000000000 = ''Infinity''"
  by (simp add: double_defs)

lemma Number_toString_minus_Infinity: "Number_toString 0xFFF0000000000000 = ''-Infinity''"
  by (simp add: double_defs)

lemma Number_toString_2: "Number_toString 0x4000000000000000 = ''2''"
  by (simp add: double_defs replicate_numeral)

lemma Number_toString_12: "Number_toString 0x4028000000000000 = ''12''"
  by (simp add: double_defs replicate_numeral)

lemma Number_toString_3_halves: "Number_toString 0x3FF8000000000000 = ''1.5''"
  by (simp add: double_defs replicate_numeral)

lemma Number_toString_minus_3_halves: "Number_toString 0xBFF8000000000000 = ''-1.5''"
  by (simp add: double_defs replicate_numeral)

lemma Number_toString_half: "Number_toString 0x3FE0000000000000 = ''0.5''"
  by (simp add: double_defs replicate_numeral)

lemma Number_toString_2_pow_69: "Number_toString 0x4440000000000000 = ''590295810358705700000''"
  by (simp add: double_defs replicate_numeral)

lemma Number_toString_10_pow_21: "Number_toString 0x444B1AE4D6E2EF50 = ''1e+21''"
  by (simp add: double_defs replicate_numeral)

lemma Number_toString_2_pow_80: "Number_toString 0x44F0000000000000 = ''1.2089258196146292e+24''"
  by (simp add: double_defs replicate_numeral)

lemma Number_toString_2_pow_minus_10: "Number_toString 0x3F50000000000000 = ''0.0009765625''"
  by (simp add: double_defs replicate_numeral)

lemma Number_toString_2_pow_minus_20: "Number_toString 0x3EB0000000000000 = ''9.5367431640625e-7''"
  by (simp add: double_defs replicate_numeral)

section \<open>The management address and audience\<close>

text \<open>
  C7. \<open>getEventHubManagementAddress()\<close> always returns \<open>entityPath + "/$management"\<close> and
  \<open>getEventHubManagementAudience()\<close> always returns \<open>endpoint + entityPath + "/$management"\<close>.
  Both take the config and nothing else, test nothing, and never return an error.
\<close>

theorem management_address_and_audience:
  "getEventHubManagementAddress config = Inr (entityPath config @ ''/$management'') \<and>
   getEventHubManagementAudience config =
     Inr (endpoint config @ entityPath config @ ''/$management'')"
  by (simp add: getEventHubManagementAddress_def getEventHubManagementAudience_def)

section \<open>The sender address\<close>

text \<open>
  C1. For every \<open>partitionId\<close> that is a string or a number,
  \<open>getEventHubSenderAddress(partitionId)\<close> returns \<open>entityPath + "/Partitions/" + partitionId\<close>
  (a number is converted as string concatenation converts it, by \<open>Number::toString\<close>), and
  \<open>getEventHubSenderAddress()\<close> with no argument returns exactly \<open>entityPath\<close>. The last six
  conjuncts are the result for the numbers \<open>12\<close>, \<open>1.5\<close>, \<open>-1.5\<close>, \<open>2^69\<close>, \<open>10^21\<close> and
  \<open>2^-20\<close>.
\<close>

theorem sender_address:
  "getEventHubSenderAddress config (JSString s) = Inr (entityPath config @ ''/Partitions/'' @ s) \<and>
   getEventHubSenderAddress config (JSNumber n) =
     Inr (entityPath config @ ''/Partitions/'' @ Number_toString n) \<and>
   getEventHubSenderAddress config JSUndefined = Inr (entityPath config) \<and>
   getEventHubSenderAddress config (JSNumber 0x4028000000000000) =
     Inr (entityPath config @ ''/Partitions/12'') \<and>
   getEventHubSenderAddress config (JSNumber 0x3FF8000000000000) =
     Inr (entityPath config @ ''/Partitions/1.5'') \<and>
   getEventHubSenderAddress config (JSNumber 0xBFF8000000000000) =
     Inr (entityPath config @ ''/Partitions/-1.5'') \<and>
   getEventHubSenderAddress config (JSNumber 0x4440000000000000) =
     Inr (entityPath config @ ''/Partitions/590295810358705700000'') \<and>
   getEventHubSenderAddress config (JSNumber 0x444B1AE4D6E2EF50) =
     Inr (entityPath config @ ''/Partitions/1e+21'') \<and>
   getEventHubSenderAddress config (JSNumber 0x3EB0000000000000) =
     Inr (entityPath config @ ''/Partitions/9.5367431640625e-7'')"
  by (simp add: getEventHubSenderAddress_def Number_toString_12 Number_toString_3_halves
      Number_toString_minus_3_halves Number_toString_2_pow_69 Number_toString_10_pow_21
      Number_toString_2_pow_minus_20)

section \<open>The type error of the receiver closures\<close>

text \<open>
  C2. \<open>getEventHubReceiverAddress\<close> and \<open>getEventHubReceiverAudience\<close> throw a
  \<open>TypeError\<close> if and only if \<open>partitionId\<close> is \<open>undefined\<close> or its type is neither
  \<open>"string"\<close> nor \<open>"number"\<close> (\<open>null\<close> is such a value); on every other input they return
  a string. The message names the parameter and the two types: it is the text
  "partitionId is a required parameter and must be of type string or number" with
  \<open>partitionId\<close>, \<open>string\<close> and \<open>number\<close> in single quotes.
\<close>

theorem receiver_type_error:
  "(p = JSUndefined \<or> (typeof p \<noteq> ''string'' \<and> typeof p \<noteq> ''number'') \<longrightarrow>
      getEventHubReceiverAddress config p cg =
        Inl (TypeError ('''partitionId' is a required parameter and must be of type 'string' or 'number'' @ [CHR 0x27])) \<and>
      getEventHubReceiverAudience config p cg =
        Inl (TypeError ('''partitionId' is a required parameter and must be of type 'string' or 'number'' @ [CHR 0x27]))) \<and>
   (\<not> (p = JSUndefined \<or> (typeof p \<noteq> ''string'' \<and> typeof p \<noteq> ''number'')) \<longrightarrow>
      (\<exists>s. getEventHubReceiverAddress config p cg = Inr s) \<and>
      (\<exists>s. getEventHubReceiverAudience config p cg = Inr s)) \<and>
   filter (\<lambda>c. c \<noteq> CHR 0x27)
     ('''partitionId' is a required parameter and must be of type 'string' or 'number'' @ [CHR 0x27]) =
     ''partitionId is a required parameter and must be of type string or number''"
  by (cases p) (simp_all add: getEventHubReceiverAddress_def getEventHubReceiverAudience_def)

theorem receiver_type_error_witness:
  "getEventHubReceiverAddress \<lparr>endpoint = ''sb://ns.example.net/'', entityPath = ''hub1''\<rparr>
     JSUndefined (Some ''cg1'') =
     Inl (TypeError ('''partitionId' is a required parameter and must be of type 'string' or 'number'' @ [CHR 0x27])) \<and>
   getEventHubReceiverAudience \<lparr>endpoint = ''sb://ns.example.net/'', entityPath = ''hub1''\<rparr>
     (JSBoolean False) (Some ''cg1'') =
     Inl (TypeError ('''partitionId' is a required parameter and must be of type 'string' or 'number'' @ [CHR 0x27])) \<and>
   (\<exists>s. getEventHubReceiverAddress
          \<lparr>endpoint = ''sb://ns.example.net/'', entityPath = ''hub1''\<rparr>
          (JSString ''7'') (Some ''cg1'') = Inr s)"
proof -
  let ?c = "\<lparr>endpoint = ''sb://ns.example.net/'', entityPath = ''hub1''\<rparr>"
  have u: "JSUndefined = JSUndefined \<or>
           (typeof JSUndefined \<noteq> ''string'' \<and> typeof JSUndefined \<noteq> ''number'')"
    by simp
  have b: "JSBoolean False = JSUndefined \<or>
           (typeof (JSBoolean False) \<noteq> ''string'' \<and> typeof (JSBoolean False) \<noteq> ''number'')"
    by simp
  have s: "\<not> (JSString ''7'' = JSUndefined \<or>
           (typeof (JSString ''7'') \<noteq> ''string'' \<and> typeof (JSString ''7'') \<noteq> ''number''))"
    by simp
  note t1 = receiver_type_error [of JSUndefined ?c "Some ''cg1''", THEN conjunct1, rule_format,
      OF u, THEN conjunct1]
  note t2 = receiver_type_error [of "JSBoolean False" ?c "Some ''cg1''", THEN conjunct1,
      rule_format, OF b, THEN conjunct2]
  note t3 = receiver_type_error [of "JSString ''7''" ?c "Some ''cg1''", THEN conjunct2,
      THEN conjunct1, rule_format, OF s, THEN conjunct1]
  from t1 t2 t3 show ?thesis by (intro conjI)
qed

section \<open>Audiences are the endpoint followed by the address\<close>

text \<open>
  C3. Whenever an address closure returns a string, the audience closure of the same kind,
  called with the same arguments, returns \<open>endpoint\<close> followed by that string: for the
  sender (also with \<open>partitionId\<close> absent), for the receiver and for the management entity.
\<close>

theorem audience_is_endpoint_and_address:
  "(\<forall>a. getEventHubSenderAddress config p = Inr a \<longrightarrow>
        getEventHubSenderAudience config p = Inr (endpoint config @ a)) \<and>
   (\<forall>a. getEventHubReceiverAddress config p cg = Inr a \<longrightarrow>
        getEventHubReceiverAudience config p cg = Inr (endpoint config @ a)) \<and>
   (\<forall>a. getEventHubManagementAddress config = Inr a \<longrightarrow>
        getEventHubManagementAudience config = Inr (endpoint config @ a))"
  by (auto simp add: getEventHubSenderAddress_def getEventHubSenderAudience_def
      getEventHubReceiverAddress_def getEventHubReceiverAudience_def
      getEventHubManagementAddress_def getEventHubManagementAudience_def
      split: if_splits)

theorem audience_is_endpoint_and_address_witness:
  "getEventHubSenderAddress \<lparr>endpoint = ''sb://ns.example.net/'', entityPath = ''hub1''\<rparr>
     (JSNumber 0x4000000000000000) = Inr ''hub1/Partitions/2'' \<and>
   getEventHubSenderAudience \<lparr>endpoint = ''sb://ns.example.net/'', entityPath = ''hub1''\<rparr>
     (JSNumber 0x4000000000000000) = Inr (''sb://ns.example.net/'' @ ''hub1/Partitions/2'') \<and>
   getEventHubReceiverAddress \<lparr>endpoint = ''sb://ns.example.net/'', entityPath = ''hub1''\<rparr>
     (JSNumber 0x4000000000000000) (Some ''cg1'') = Inr ''hub1/ConsumerGroups/cg1/Partitions/2'' \<and>
   getEventHubReceiverAudience \<lparr>endpoint = ''sb://ns.example.net/'', entityPath = ''hub1''\<rparr>
     (JSNumber 0x4000000000000000) (Some ''cg1'') =
       Inr (''sb://ns.example.net/'' @ ''hub1/ConsumerGroups/cg1/Partitions/2'') \<and>
   getEventHubManagementAddress \<lparr>endpoint = ''sb://ns.example.net/'', entityPath = ''hub1''\<rparr>
     = Inr ''hub1/$management'' \<and>
   getEventHubManagementAudience \<lparr>endpoint = ''sb://ns.example.net/'', entityPath = ''hub1''\<rparr>
     = Inr (''sb://ns.example.net/'' @ ''hub1/$management'')"
proof -
  let ?c = "\<lparr>endpoint = ''sb://ns.example.net/'', entityPath = ''hub1''\<rparr>"
  note t = audience_is_endpoint_and_address [of ?c "JSNumber 0x4000000000000000" "Some ''cg1''"]
  have s: "getEventHubSenderAddress ?c (JSNumber 0x4000000000000000) = Inr ''hub1/Partitions/2''"
    by (simp add: getEventHubSenderAddress_def Number_toString_2)
  have r: "getEventHubReceiverAddress ?c (JSNumber 0x4000000000000000) (Some ''cg1'') =
             Inr ''hub1/ConsumerGroups/cg1/Partitions/2''"
    by (simp add: getEventHubReceiverAddress_def Number_toString_2)
  have m: "getEventHubManagementAddress ?c = Inr ''hub1/$management''"
    by (simp add: getEventHubManagementAddress_def)
  note a1 = t [THEN conjunct1, rule_format, OF s]
  note a2 = t [THEN conjunct2, THEN conjunct1, rule_format, OF r]
  note a3 = t [THEN conjunct2, THEN conjunct2, rule_format, OF m]
  from s r m a1 a2 a3 show ?thesis by simp
qed

section \<open>The receiver address\<close>

text \<open>
  C4. For every \<open>partitionId\<close> that is a string or a number and every non-empty
  \<open>consumerGroup\<close>, \<open>getEventHubReceiverAddress(partitionId, consumerGroup)\<close> returns
  \<open>entityPath + "/ConsumerGroups/" + consumerGroup + "/Partitions/" + partitionId\<close>, and with
  the consumer group omitted it returns
  \<open>entityPath + "/ConsumerGroups/$default/Partitions/" + partitionId\<close>. With endpoint
  \<open>"sb://ns.example.net/"\<close>, entityPath \<open>"hub1"\<close> and partitionId \<open>2\<close>, the sender address is
  \<open>"hub1/Partitions/2"\<close> and the receiver audience for \<open>"cg1"\<close> is
  \<open>"sb://ns.example.net/hub1/ConsumerGroups/cg1/Partitions/2"\<close>. The last four conjuncts are
  the receiver address for the numbers \<open>12\<close>, \<open>0.5\<close>, \<open>2^80\<close> and \<open>2^-10\<close>.
\<close>

theorem receiver_address:
  assumes "typeof p = ''string'' \<or> typeof p = ''number''" and "cg \<noteq> []"
  shows "getEventHubReceiverAddress config p (Some cg) =
           Inr (entityPath config @ ''/ConsumerGroups/'' @ cg @ ''/Partitions/'' @ ToString p) \<and>
         getEventHubReceiverAddress config p None =
           Inr (entityPath config @ ''/ConsumerGroups/$default/Partitions/'' @ ToString p) \<and>
         getEventHubSenderAddress \<lparr>endpoint = ''sb://ns.example.net/'', entityPath = ''hub1''\<rparr>
           (JSNumber 0x4000000000000000) = Inr ''hub1/Partitions/2'' \<and>
         getEventHubReceiverAudience \<lparr>endpoint = ''sb://ns.example.net/'', entityPath = ''hub1''\<rparr>
           (JSNumber 0x4000000000000000) (Some ''cg1'') =
           Inr ''sb://ns.example.net/hub1/ConsumerGroups/cg1/Partitions/2'' \<and>
         getEventHubReceiverAddress config (JSNumber 0x4028000000000000) (Some cg) =
           Inr (entityPath config @ ''/ConsumerGroups/'' @ cg @ ''/Partitions/12'') \<and>
         getEventHubReceiverAddress config (JSNumber 0x3FE0000000000000) (Some cg) =
           Inr (entityPath config @ ''/ConsumerGroups/'' @ cg @ ''/Partitions/0.5'') \<and>
         getEventHubReceiverAddress config (JSNumber 0x44F0000000000000) None =
           Inr (entityPath config @
                ''/ConsumerGroups/$default/Partitions/1.2089258196146292e+24'') \<and>
         getEventHubReceiverAddress config (JSNumber 0x3F50000000000000) None =
           Inr (entityPath config @ ''/ConsumerGroups/$default/Partitions/0.0009765625'')"
proof -
  from assms(1) have d: "\<not> loose_eq_undefined p" by (rule typeof_accepted_defined)
  from assms d have
    "getEventHubReceiverAddress config p (Some cg) =
       Inr (entityPath config @ ''/ConsumerGroups/'' @ cg @ ''/Partitions/'' @ ToString p)"
    by (simp add: getEventHubReceiverAddress_def)
  moreover from assms(1) d have
    "getEventHubReceiverAddress config p None =
       Inr (entityPath config @ ''/ConsumerGroups/$default/Partitions/'' @ ToString p)"
    by (simp add: getEventHubReceiverAddress_def)
  moreover have
    "getEventHubSenderAddress \<lparr>endpoint = ''sb://ns.example.net/'', entityPath = ''hub1''\<rparr>
       (JSNumber 0x4000000000000000) = Inr ''hub1/Partitions/2''"
    by (simp add: getEventHubSenderAddress_def Number_toString_2)
  moreover have
    "getEventHubReceiverAudience \<lparr>endpoint = ''sb://ns.example.net/'', entityPath = ''hub1''\<rparr>
       (JSNumber 0x4000000000000000) (Some ''cg1'') =
       Inr ''sb://ns.example.net/hub1/ConsumerGroups/cg1/Partitions/2''"
    by (simp add: getEventHubReceiverAudience_def Number_toString_2)
  moreover from assms(2) have
    "getEventHubReceiverAddress config (JSNumber 0x4028000000000000) (Some cg) =
       Inr (entityPath config @ ''/ConsumerGroups/'' @ cg @ ''/Partitions/12'')"
    by (simp add: getEventHubReceiverAddress_def Number_toString_12)
  moreover from assms(2) have
    "getEventHubReceiverAddress config (JSNumber 0x3FE0000000000000) (Some cg) =
       Inr (entityPath config @ ''/ConsumerGroups/'' @ cg @ ''/Partitions/0.5'')"
    by (simp add: getEventHubReceiverAddress_def Number_toString_half)
  moreover have
    "getEventHubReceiverAddress config (JSNumber 0x44F0000000000000) None =
       Inr (entityPath config @
            ''/ConsumerGroups/$default/Partitions/1.2089258196146292e+24'')"
    by (simp add: getEventHubReceiverAddress_def Number_toString_2_pow_80)
  moreover have
    "getEventHubReceiverAddress config (JSNumber 0x3F50000000000000) None =
       Inr (entityPath config @ ''/ConsumerGroups/$default/Partitions/0.0009765625'')"
    by (simp add: getEventHubReceiverAddress_def Number_toString_2_pow_minus_10)
  ultimately show ?thesis by (intro conjI)
qed

theorem receiver_address_witness:
  "getEventHubReceiverAddress \<lparr>endpoint = ''sb://ns.example.net/'', entityPath = ''hub1''\<rparr>
     (JSString ''7'') (Some ''cg1'') = Inr ''hub1/ConsumerGroups/cg1/Partitions/7'' \<and>
   getEventHubReceiverAddress \<lparr>endpoint = ''sb://ns.example.net/'', entityPath = ''hub1''\<rparr>
     (JSString ''7'') None = Inr ''hub1/ConsumerGroups/$default/Partitions/7''"
proof -
  have h1: "typeof (JSString ''7'') = ''string'' \<or> typeof (JSString ''7'') = ''number''"
    by simp
  have h2: "''cg1'' \<noteq> []" by simp
  note t = receiver_address [OF h1 h2,
      of "\<lparr>endpoint = ''sb://ns.example.net/'', entityPath = ''hub1''\<rparr>"]
  from t [THEN conjunct1] t [THEN conjunct2, THEN conjunct1] show ?thesis by simp
qed

section \<open>Values of the wrong type\<close>

text \<open>
  C5, as stated, asks every provided \<open>partitionId\<close> that is not a string and not an
  integer to be rejected by all four closures. The value \<open>null\<close> is neither, and the sender
  closures take it for an absent argument and return the result without a partition; the
  numbers \<open>NaN\<close> and \<open>1.5\<close> are not integers, and the closures accept them as they accept
  every number.
\<close>

theorem null_sender_counterexample:
  "typeof JSNull \<noteq> ''string'' \<and> typeof JSNull \<noteq> ''number'' \<and>
   getEventHubSenderAddress \<lparr>endpoint = ''sb://ns.example.net/'', entityPath = ''hub1''\<rparr>
     JSNull = Inr ''hub1'' \<and>
   getEventHubSenderAudience \<lparr>endpoint = ''sb://ns.example.net/'', entityPath = ''hub1''\<rparr>
     JSNull = Inr ''sb://ns.example.net/hub1'' \<and>
   getEventHubReceiverAddress \<lparr>endpoint = ''sb://ns.example.net/'', entityPath = ''hub1''\<rparr>
     (JSNumber 0x7FF8000000000000) None = Inr ''hub1/ConsumerGroups/$default/Partitions/NaN'' \<and>
   getEventHubReceiverAddress \<lparr>endpoint = ''sb://ns.example.net/'', entityPath = ''hub1''\<rparr>
     (JSNumber 0x3FF8000000000000) None = Inr ''hub1/ConsumerGroups/$default/Partitions/1.5''"
  by (simp add: getEventHubSenderAddress_def getEventHubSenderAudience_def
      getEventHubReceiverAddress_def Number_toString_NaN Number_toString_3_halves)

text \<open>
  C5, amended. For every \<open>partitionId\<close> other than \<open>undefined\<close> and \<open>null\<close> whose type is
  neither \<open>"string"\<close> nor \<open>"number"\<close>, in particular every boolean, object and array, each of
  \<open>getEventHubSenderAddress\<close>, \<open>getEventHubSenderAudience\<close>, \<open>getEventHubReceiverAddress\<close> and
  \<open>getEventHubReceiverAudience\<close> throws a \<open>TypeError\<close>, whatever the other arguments are.
\<close>

theorem wrong_type_rejected:
  assumes "p \<noteq> JSUndefined" and "p \<noteq> JSNull"
    and "typeof p \<noteq> ''string''" and "typeof p \<noteq> ''number''"
  shows "getEventHubSenderAddress config p =
           Inl (TypeError '''partitionId' must be of type 'string' or 'number'.'') \<and>
         getEventHubSenderAudience config p =
           Inl (TypeError '''partitionId' must be of type 'string' or 'number'.'') \<and>
         getEventHubReceiverAddress config p cg =
           Inl (TypeError ('''partitionId' is a required parameter and must be of type 'string' or 'number'' @ [CHR 0x27])) \<and>
         getEventHubReceiverAudience config p cg =
           Inl (TypeError ('''partitionId' is a required parameter and must be of type 'string' or 'number'' @ [CHR 0x27]))"
proof -
  from assms(1,2) have "\<not> loose_eq_undefined p" by (cases p) simp_all
  with assms(3,4) show ?thesis
    by (simp add: getEventHubSenderAddress_def getEventHubSenderAudience_def
        getEventHubReceiverAddress_def getEventHubReceiverAudience_def)
qed

theorem wrong_type_rejected_witness:
  "getEventHubSenderAddress \<lparr>endpoint = ''sb://ns.example.net/'', entityPath = ''hub1''\<rparr>
     (JSBoolean True) =
     Inl (TypeError '''partitionId' must be of type 'string' or 'number'.'') \<and>
   getEventHubSenderAudience \<lparr>endpoint = ''sb://ns.example.net/'', entityPath = ''hub1''\<rparr>
     (JSObject [(''id'', JSNumber 0x4000000000000000)]) =
     Inl (TypeError '''partitionId' must be of type 'string' or 'number'.'') \<and>
   getEventHubReceiverAddress \<lparr>endpoint = ''sb://ns.example.net/'', entityPath = ''hub1''\<rparr>
     (JSArray [JSString ''2'']) (Some ''cg1'') =
     Inl (TypeError ('''partitionId' is a required parameter and must be of type 'string' or 'number'' @ [CHR 0x27]))"
proof -
  let ?c = "\<lparr>endpoint = ''sb://ns.example.net/'', entityPath = ''hub1''\<rparr>"
  have b: "JSBoolean True \<noteq> JSUndefined" "JSBoolean True \<noteq> JSNull"
    "typeof (JSBoolean True) \<noteq> ''string''" "typeof (JSBoolean True) \<noteq> ''number''"
    by simp_all
  have ob: "JSObject [(''id'', JSNumber 0x4000000000000000)] \<noteq> JSUndefined"
    "JSObject [(''id'', JSNumber 0x4000000000000000)] \<noteq> JSNull"
    "typeof (JSObject [(''id'', JSNumber 0x4000000000000000)]) \<noteq> ''string''"
    "typeof (JSObject [(''id'', JSNumber 0x4000000000000000)]) \<noteq> ''number''"
    by simp_all
  have ar: "JSArray [JSString ''2''] \<noteq> JSUndefined" "JSArray [JSString ''2''] \<noteq> JSNull"
    "typeof (JSArray [JSString ''2'']) \<noteq> ''string''"
    "typeof (JSArray [JSString ''2'']) \<noteq> ''number''"
    by simp_all
  note t1 = wrong_type_rejected [OF b, of ?c None, THEN conjunct1]
  note t2 = wrong_type_rejected [OF ob, of ?c None, THEN conjunct2, THEN conjunct1]
  note t3 = wrong_type_rejected [OF ar, of ?c "Some ''cg1''", THEN conjunct2, THEN conjunct2,
      THEN conjunct1]
  from t1 t2 t3 show ?thesis by (intro conjI)
qed

section \<open>The empty consumer group\<close>

text \<open>
  C6. For every \<open>partitionId\<close> that is a string or a number,
  \<open>getEventHubReceiverAddress(partitionId, "")\<close> and \<open>getEventHubReceiverAudience(partitionId, "")\<close>
  return the same strings as the calls that omit the consumer group: the empty consumer group
  is replaced by \<open>"$default"\<close>.
\<close>

theorem empty_consumergroup_is_default:
  assumes "typeof p = ''string'' \<or> typeof p = ''number''"
  shows "getEventHubReceiverAddress config p (Some []) =
           Inr (entityPath config @ ''/ConsumerGroups/$default/Partitions/'' @ ToString p) \<and>
         getEventHubReceiverAddress config p None =
           Inr (entityPath config @ ''/ConsumerGroups/$default/Partitions/'' @ ToString p) \<and>
         getEventHubReceiverAudience config p (Some []) =
           Inr (endpoint config @ entityPath config @
                ''/ConsumerGroups/$default/Partitions/'' @ ToString p) \<and>
         getEventHubReceiverAudience config p None =
           Inr (endpoint config @ entityPath config @
                ''/ConsumerGroups/$default/Partitions/'' @ ToString p)"
proof -
  from assms have "\<not> loose_eq_undefined p" by (rule typeof_accepted_defined)
  with assms show ?thesis
    by (simp add: getEventHubReceiverAddress_def getEventHubReceiverAudience_def)
qed

theorem empty_consumergroup_is_default_witness:
  "getEventHubReceiverAddress \<lparr>endpoint = ''sb://ns.example.net/'', entityPath = ''hub1''\<rparr>
     (JSString ''7'') (Some []) = Inr ''hub1/ConsumerGroups/$default/Partitions/7'' \<and>
   getEventHubReceiverAddress \<lparr>endpoint = ''sb://ns.example.net/'', entityPath = ''hub1''\<rparr>
     (JSString ''7'') None = Inr ''hub1/ConsumerGroups/$default/Partitions/7'' \<and>
   getEventHubReceiverAudience \<lparr>endpoint = ''sb://ns.example.net/'', entityPath = ''hub1''\<rparr>
     (JSString ''7'') (Some []) =
     Inr ''sb://ns.example.net/hub1/ConsumerGroups/$default/Partitions/7'' \<and>
   getEventHubReceiverAudience \<lparr>endpoint = ''sb://ns.example.net/'', entityPath = ''hub1''\<rparr>
     (JSString ''7'') None =
     Inr ''sb://ns.example.net/hub1/ConsumerGroups/$default/Partitions/7''"
proof -
  have h: "typeof (JSString ''7'') = ''string'' \<or> typeof (JSString ''7'') = ''number''"
    by simp
  from empty_consumergroup_is_default [OF h,
      of "\<lparr>endpoint = ''sb://ns.example.net/'', entityPath = ''hub1''\<rparr>"]
  show ?thesis by simp
qed

section \<open>The value \<open>null\<close>\<close>

text \<open>
  C9. The sender closures take \<open>null\<close> for an absent \<open>partitionId\<close>: they return what they
  return with no argument, \<open>entityPath\<close> and \<open>endpoint + entityPath\<close>, and no error. The
  receiver closures take \<open>null\<close> for a missing required parameter and throw the
  \<open>TypeError\<close>, whatever the consumer group is.
\<close>

theorem null_partitionId:
  "getEventHubSenderAddress config JSNull = Inr (entityPath config) \<and>
   getEventHubSenderAddress config JSNull = getEventHubSenderAddress config JSUndefined \<and>
   getEventHubSenderAudience config JSNull = Inr (endpoint config @ entityPath config) \<and>
   getEventHubSenderAudience config JSNull = getEventHubSenderAudience config JSUndefined \<and>
   getEventHubReceiverAddress config JSNull cg =
     Inl (TypeError ('''partitionId' is a required parameter and must be of type 'string' or 'number'' @ [CHR 0x27])) \<and>
   getEventHubReceiverAudience config JSNull cg =
     Inl (TypeError ('''partitionId' is a required parameter and must be of type 'string' or 'number'' @ [CHR 0x27]))"
  by (simp add: getEventHubSenderAddress_def getEventHubSenderAudience_def
      getEventHubReceiverAddress_def getEventHubReceiverAudience_def)

section \<open>The empty string and zero\<close>

text \<open>
  C10. The empty string and the number \<open>0\<close> are accepted as \<open>partitionId\<close> by the four
  sender and receiver closures: \<open>getEventHubSenderAddress("")\<close> returns
  \<open>entityPath + "/Partitions/"\<close>, \<open>getEventHubReceiverAddress(0)\<close> returns
  \<open>entityPath + "/ConsumerGroups/$default/Partitions/0"\<close>, and no closure asks \<open>partitionId\<close>
  to be non-empty.
\<close>

theorem empty_string_and_zero_accepted:
  "getEventHubSenderAddress config (JSString []) = Inr (entityPath config @ ''/Partitions/'') \<and>
   getEventHubSenderAudience config (JSString []) =
     Inr (endpoint config @ entityPath config @ ''/Partitions/'') \<and>
   getEventHubReceiverAddress config (JSString []) cg =
     Inr (entityPath config @ ''/ConsumerGroups/'' @ default_consumergroup cg @
          ''/Partitions/'') \<and>
   getEventHubReceiverAudience config (JSString []) cg =
     Inr (endpoint config @ entityPath config @ ''/ConsumerGroups/'' @
          default_consumergroup cg @ ''/Partitions/'') \<and>
   getEventHubSenderAddress config (JSNumber 0) =
     Inr (entityPath config @ ''/Partitions/0'') \<and>
   getEventHubSenderAudience config (JSNumber 0) =
     Inr (endpoint config @ entityPath config @ ''/Partitions/0'') \<and>
   getEventHubReceiverAddress config (JSNumber 0) None =
     Inr (entityPath config @ ''/ConsumerGroups/$default/Partitions/0'') \<and>
   getEventHubReceiverAddress config (JSNumber 0) cg =
     Inr (entityPath config @ ''/ConsumerGroups/'' @ default_consumergroup cg @
          ''/Partitions/0'') \<and>
   getEventHubReceiverAudience config (JSNumber 0) cg =
     Inr (endpoint config @ entityPath config @ ''/ConsumerGroups/'' @
          default_consumergroup cg @ ''/Partitions/0'')"
  by (simp add: getEventHubSenderAddress_def getEventHubSenderAudience_def
      getEventHubReceiverAddress_def getEventHubReceiverAudience_def
      Number_toString_zero)

end
